theory Spec2Isabelle
  imports Main "HOL-Library.Word" "HOL-Library.Sublist"
begin

section \<open>Basic types of the p2p package\<close>

text \<open>
  Go's \<open>uint64\<close> is a 64-bit word: \<open>+\<close> wraps around. \<open>protocol.ID\<close> and
  \<open>peer.ID\<close> are string types of the libp2p libraries. A \<open>ma.Multiaddr\<close> is kept by the
  text its \<open>String()\<close> method renders. An \<open>error\<close> value carries its message;
  \<open>errNotOnline\<close> is the package-level error value of the commands package and
  \<open>DuplicateListener\<close> the error of the listener registry for a key that is taken.
\<close>

type_synonym uint64 = "64 word"
type_synonym protocol_ID = string
type_synonym peer_ID = string
type_synonym ref = nat

datatype error = Error string | errNotOnline | DuplicateListener

datatype Multiaddr = Multiaddr (ma_String: string)

text \<open>
  A \<open>manet.Conn\<close> is an accepted local connection: an identity and the address of its
  remote end. A \<open>net.Stream\<close> is an overlay stream, a \<open>manet.Listener\<close> a bound socket;
  both are kept by an identity.
\<close>

record Conn =
  conn_fd :: nat
  RemoteMultiaddr :: Multiaddr

type_synonym net_Stream = nat
type_synonym manet_Listener = nat

section \<open>Stream and StreamRegistry\<close>

text \<open>
  \<open>type Stream struct\<close>. The unexported field \<open>id\<close> is named \<open>id_f\<close>, since \<open>id\<close> is the
  identity function of HOL. \<open>Registry\<close> is a pointer to a StreamRegistry: a reference into
  the store of registries of the world below.
\<close>

record Stream =
  id_f :: uint64
  Protocol :: protocol_ID
  OriginAddr :: Multiaddr
  TargetAddr :: Multiaddr
  Local :: Conn
  Remote :: net_Stream
  Registry :: ref

text \<open>
  \<open>type StreamRegistry struct\<close>. The mutex \<open>lk\<close> makes Register and Deregister atomic;
  each is one state transformer here.
\<close>

record StreamRegistry =
  Streams :: "uint64 \<rightharpoonup> Stream"
  nextID :: uint64

text \<open>A registry as it is constructed: an empty map, and Go's zero value for \<open>nextID\<close>.\<close>

definition fresh_StreamRegistry :: StreamRegistry where
  "fresh_StreamRegistry = \<lparr>Streams = Map.empty, nextID = 0\<rparr>"

text \<open>
  \<open>func (r *StreamRegistry) Register(streamInfo *Stream)\<close>. The stream is passed by
  pointer and its \<open>id\<close> is written, so the updated stream is returned beside the registry.
\<close>

definition StreamRegistry_Register :: "Stream \<Rightarrow> StreamRegistry \<Rightarrow> Stream \<times> StreamRegistry" where
  "StreamRegistry_Register streamInfo r =
     (let s = streamInfo\<lparr>id_f := nextID r\<rparr>
      in (s, r\<lparr>Streams := (Streams r)(nextID r \<mapsto> s), nextID := nextID r + 1\<rparr>))"

text \<open>\<open>func (r *StreamRegistry) Deregister(streamID uint64)\<close>: Go's \<open>delete\<close> on the map.\<close>

definition StreamRegistry_Deregister :: "uint64 \<Rightarrow> StreamRegistry \<Rightarrow> StreamRegistry" where
  "StreamRegistry_Deregister streamID r = r\<lparr>Streams := (Streams r)(streamID := None)\<rparr>"

text \<open>
  A history of calls on one registry, in the order the mutex serialises them. Running it
  returns the handles that the Register calls assigned, in order, and the final registry.
\<close>

datatype registry_call = Register_call Stream | Deregister_call uint64

fun is_Register :: "registry_call \<Rightarrow> bool" where
  "is_Register (Register_call s) = True"
| "is_Register (Deregister_call h) = False"

fun run_calls :: "registry_call list \<Rightarrow> StreamRegistry \<Rightarrow> uint64 list \<times> StreamRegistry" where
  "run_calls [] r = ([], r)"
| "run_calls (Register_call s # cs) r =
     (let (s', r') = StreamRegistry_Register s r;
          (hs, r'') = run_calls cs r'
      in (id_f s' # hs, r''))"
| "run_calls (Deregister_call h # cs) r = run_calls cs (StreamRegistry_Deregister h r)"

definition count_Register :: "registry_call list \<Rightarrow> nat" where
  "count_Register cs = length (filter is_Register cs)"

section \<open>The world: registries, logged effects, goroutines\<close>

text \<open>
  The identity of a registered listener: \<open>getListenerKey\<close> takes the three strings
  that the \<open>Listener\<close> interface reports.
\<close>

record listenerKey =
  key_proto :: string
  key_listen :: string
  key_target :: string

text \<open>
  \<open>type P2P struct\<close>, as far as the listener uses it: the node's identity and the
  pointer \<open>Streams\<close> to its StreamRegistry (named \<open>p2p_Streams\<close>, the field
  \<open>Streams\<close> being the registry's map). Its \<open>Listeners\<close> registry is the one of
  the world.
\<close>

record P2P =
  identity :: peer_ID
  p2p_Streams :: ref

text \<open>
  \<open>type localListener struct\<close>. The context \<open>ctx\<close> only bounds the dial in time and
  is left out; \<open>listener\<close> is \<open>None\<close> until ForwardLocal has bound the socket.
\<close>

record localListener =
  p2p :: P2P
  id_l :: peer_ID
  proto :: protocol_ID
  laddr :: Multiaddr
  peer :: peer_ID
  listener :: "manet_Listener option"

text \<open>
  A value of the \<open>Listener\<close> interface. The local-forward variant is the struct above.
  The remote-forward variant, whose source file is missing, is kept by the three strings
  that its \<open>Protocol\<close>, \<open>ListenAddress\<close> and \<open>TargetAddress\<close> report.
\<close>

datatype Listener = LocalForward localListener | RemoteForward listenerKey

text \<open>
  Modelled from the spec: the type ListenerRegistry, whose source file is missing. A map
  from key to listener, and the provisional reservation that \<open>lock\<close> takes and that
  \<open>unlock\<close> or \<open>Register\<close> releases.
\<close>

record ListenerRegistry =
  Listeners :: "listenerKey \<rightharpoonup> Listener"
  reserved :: "listenerKey option"

text \<open>The two ends of a stream, as arguments of \<open>io.Copy\<close>.\<close>

datatype endpoint = Local_end Conn | Remote_end net_Stream

text \<open>
  What the code does to its collaborators, logged in the order it happens: calls on
  connections, overlay streams and sockets, the calls on the two registries, and the
  calls of the commands into the p2p package. Pointers are taken to be valid: a
  \<open>Registry\<close> or \<open>p2p\<close> field is never nil. The one field that the code leaves nil
  for a while, \<open>listener\<close>, is an option.
\<close>

datatype event =
    Conn_Close Conn
  | Stream_Close_ev net_Stream
  | Stream_Reset_ev net_Stream
  | Streams_Register_ev ref uint64
  | Streams_Deregister_ev ref uint64
  | io_Copy endpoint endpoint
  | Listeners_lock_ev listenerKey
  | Listeners_unlock_ev
  | Listeners_Register_ev listenerKey
  | Listeners_Deregister_ev listenerKey
  | manet_Listen_ev Multiaddr
  | Listener_Close_ev manet_Listener
  | RemoveStreamHandler_ev string
  | Peerstore_AddAddr_ev peer_ID Multiaddr
  | ForwardLocal_ev peer_ID string Multiaddr
  | ForwardRemote_ev string Multiaddr

text \<open>The goroutines that a \<open>go\<close> statement starts.\<close>

datatype goroutine =
    copy_Remote_to_Local Stream
  | copy_Local_to_Remote Stream
  | acceptConns_of localListener

record world =
  stream_registries :: "ref \<Rightarrow> StreamRegistry"
  listener_registry :: ListenerRegistry
  trace :: "event list"
  goroutines :: "goroutine list"

definition emit :: "event \<Rightarrow> world \<Rightarrow> world" where
  "emit e w = w\<lparr>trace := trace w @ [e]\<rparr>"

definition go :: "goroutine \<Rightarrow> world \<Rightarrow> world" where
  "go g w = w\<lparr>goroutines := goroutines w @ [g]\<rparr>"

text \<open>\<open>s.Registry.Deregister(s.id)\<close> and \<open>reg.Register(stream)\<close> through a pointer.\<close>

definition Deregister_at :: "ref \<Rightarrow> uint64 \<Rightarrow> world \<Rightarrow> world" where
  "Deregister_at r h w =
     emit (Streams_Deregister_ev r h)
       (w\<lparr>stream_registries :=
            (stream_registries w)(r := StreamRegistry_Deregister h (stream_registries w r))\<rparr>)"

definition Register_at :: "ref \<Rightarrow> Stream \<Rightarrow> world \<Rightarrow> Stream \<times> world" where
  "Register_at r streamInfo w =
     (let (s, reg) = StreamRegistry_Register streamInfo (stream_registries w r)
      in (s, emit (Streams_Register_ev r (id_f s))
               (w\<lparr>stream_registries := (stream_registries w)(r := reg)\<rparr>)))"

section \<open>Stream lifecycle\<close>

text \<open>\<open>func (s *Stream) Close() error\<close>; it returns nil always.\<close>

definition Stream_Close :: "Stream \<Rightarrow> world \<Rightarrow> world" where
  "Stream_Close s w =
     (let w1 = emit (Conn_Close (Local s)) w;
          w2 = emit (Stream_Close_ev (Remote s)) w1
      in Deregister_at (Registry s) (id_f s) w2)"

text \<open>\<open>func (s *Stream) Reset() error\<close>; it returns nil always.\<close>

definition Stream_Reset :: "Stream \<Rightarrow> world \<Rightarrow> world" where
  "Stream_Reset s w =
     (let w1 = emit (Conn_Close (Local s)) w;
          w2 = emit (Stream_Reset_ev (Remote s)) w1
      in Deregister_at (Registry s) (id_f s) w2)"

text \<open>\<open>func (s *Stream) startStreaming()\<close>: two \<open>go\<close> statements.\<close>

definition startStreaming :: "Stream \<Rightarrow> world \<Rightarrow> world" where
  "startStreaming s w = go (copy_Local_to_Remote s) (go (copy_Remote_to_Local s) w)"

text \<open>
  The body of a copying goroutine. What \<open>io.Copy\<close> returns (bytes written, error) is
  given by the environment. The first goroutine drops the result; the second tests
  \<open>err != nil\<close>.
\<close>

fun run_copy :: "goroutine \<Rightarrow> int \<times> error option \<Rightarrow> world \<Rightarrow> world" where
  "run_copy (copy_Remote_to_Local s) res w =
     Stream_Reset s (emit (io_Copy (Local_end (Local s)) (Remote_end (Remote s))) w)"
| "run_copy (copy_Local_to_Remote s) (n, err) w =
     (let w1 = emit (io_Copy (Remote_end (Remote s)) (Local_end (Local s))) w
      in if err \<noteq> None then Stream_Reset s w1 else Stream_Close s w1)"
| "run_copy (acceptConns_of l) res w = w"

section \<open>The local-forward listener\<close>

text \<open>
  What the libraries compute, as parameters: \<open>peer.ID.Pretty\<close>, \<open>ma.NewMultiaddr\<close>
  and \<open>manet.Listen\<close>.
\<close>

record env =
  Pretty :: "peer_ID \<Rightarrow> string"
  NewMultiaddr :: "string \<Rightarrow> error + Multiaddr"
  manet_Listen :: "Multiaddr \<Rightarrow> error + manet_Listener"

text \<open>The methods \<open>Protocol\<close>, \<open>ListenAddress\<close> and \<open>TargetAddress\<close> of localListener.\<close>

definition localListener_Protocol :: "localListener \<Rightarrow> string" where
  "localListener_Protocol l = proto l"

definition localListener_ListenAddress :: "localListener \<Rightarrow> string" where
  "localListener_ListenAddress l = ma_String (laddr l)"

definition localListener_TargetAddress :: "('a env_scheme) \<Rightarrow> localListener \<Rightarrow> string" where
  "localListener_TargetAddress env l = ''/ipfs/'' @ Pretty env (peer l)"

text \<open>The same three methods through the \<open>Listener\<close> interface.\<close>

fun Listener_Protocol :: "Listener \<Rightarrow> string" where
  "Listener_Protocol (LocalForward l) = localListener_Protocol l"
| "Listener_Protocol (RemoteForward k) = key_proto k"

fun Listener_ListenAddress :: "Listener \<Rightarrow> string" where
  "Listener_ListenAddress (LocalForward l) = localListener_ListenAddress l"
| "Listener_ListenAddress (RemoteForward k) = key_listen k"

fun Listener_TargetAddress :: "('a env_scheme) \<Rightarrow> Listener \<Rightarrow> string" where
  "Listener_TargetAddress env (LocalForward l) = localListener_TargetAddress env l"
| "Listener_TargetAddress env (RemoteForward k) = key_target k"

text \<open>
  Modelled from the spec: \<open>getListenerKey\<close> and the operations \<open>lock\<close>, \<open>unlock\<close>,
  \<open>Register\<close> and \<open>Deregister\<close> of the ListenerRegistry, whose source file is missing.
  The key is the triple (protocol, listen address, target address). \<open>lock\<close> fails with
  DuplicateListener when a listener with the key exists or a registration for the key is
  in flight, and reserves the key otherwise; \<open>unlock\<close> releases the reservation and
  registers nothing; \<open>Register\<close> inserts the listener at its key and clears the
  reservation; \<open>Deregister\<close> removes the entry, if any. Every call is logged.
\<close>

definition getListenerKey :: "('a env_scheme) \<Rightarrow> Listener \<Rightarrow> listenerKey" where
  "getListenerKey env l =
     \<lparr>key_proto = Listener_Protocol l,
      key_listen = Listener_ListenAddress l,
      key_target = Listener_TargetAddress env l\<rparr>"

definition ListenerRegistry_lock :: "('a env_scheme) \<Rightarrow> Listener \<Rightarrow> world \<Rightarrow> error option \<times> world" where
  "ListenerRegistry_lock env l w =
     (let k = getListenerKey env l;
          w1 = emit (Listeners_lock_ev k) w;
          reg = listener_registry w1
      in if Listeners reg k \<noteq> None \<or> reserved reg = Some k
         then (Some DuplicateListener, w1)
         else (None, w1\<lparr>listener_registry := reg\<lparr>reserved := Some k\<rparr>\<rparr>))"

definition ListenerRegistry_unlock :: "world \<Rightarrow> world" where
  "ListenerRegistry_unlock w =
     emit Listeners_unlock_ev
       (w\<lparr>listener_registry := (listener_registry w)\<lparr>reserved := None\<rparr>\<rparr>)"

definition ListenerRegistry_Register :: "('a env_scheme) \<Rightarrow> Listener \<Rightarrow> world \<Rightarrow> world" where
  "ListenerRegistry_Register env l w =
     (let k = getListenerKey env l; reg = listener_registry w
      in emit (Listeners_Register_ev k)
           (w\<lparr>listener_registry := reg\<lparr>Listeners := (Listeners reg)(k \<mapsto> l), reserved := None\<rparr>\<rparr>))"

definition ListenerRegistry_Deregister :: "listenerKey \<Rightarrow> world \<Rightarrow> world" where
  "ListenerRegistry_Deregister k w =
     (let reg = listener_registry w
      in emit (Listeners_Deregister_ev k)
           (w\<lparr>listener_registry := reg\<lparr>Listeners := (Listeners reg)(k := None)\<rparr>\<rparr>))"

text \<open>
  \<open>func (p2p *P2P) ForwardLocal(ctx, peer, proto, bindAddr) (Listener, error)\<close>.
  The call of \<open>manet.Listen\<close> is logged before its result is tested.
\<close>

definition ForwardLocal ::
  "('a env_scheme) \<Rightarrow> P2P \<Rightarrow> peer_ID \<Rightarrow> string \<Rightarrow> Multiaddr \<Rightarrow> world \<Rightarrow> (error + localListener) \<times> world" where
  "ForwardLocal env p2p_this peer_arg proto_arg bindAddr w =
     (let l = \<lparr>p2p = p2p_this, id_l = identity p2p_this, proto = proto_arg,
                laddr = bindAddr, peer = peer_arg, listener = None\<rparr>
      in case ListenerRegistry_lock env (LocalForward l) w of
           (Some err, w1) \<Rightarrow> (Inl err, w1)
         | (None, w1) \<Rightarrow>
             (case manet_Listen env bindAddr of
                Inl err \<Rightarrow> (Inl err, ListenerRegistry_unlock (emit (manet_Listen_ev bindAddr) w1))
              | Inr maListener \<Rightarrow>
                  (let l' = l\<lparr>listener := Some maListener\<rparr>;
                       w2 = ListenerRegistry_Register env (LocalForward l')
                              (emit (manet_Listen_ev bindAddr) w1)
                   in (Inr l', go (acceptConns_of l') w2))))"

text \<open>
  One round of the accept loop as the environment decides it: what \<open>Accept\<close> returns,
  and what \<open>peerHost.Connect\<close> and \<open>peerHost.NewStream\<close> return for the peer and the
  protocol they are called with.
\<close>

record accept_io =
  Accept :: "error + Conn"
  Connect :: "peer_ID \<Rightarrow> error option"
  NewStream :: "peer_ID \<Rightarrow> protocol_ID \<Rightarrow> error + net_Stream"

text \<open>\<open>func (l *localListener) dial() (net.Stream, error)\<close>.\<close>

definition dial :: "localListener \<Rightarrow> accept_io \<Rightarrow> error + net_Stream" where
  "dial l io =
     (case Connect io (peer l) of
        Some err \<Rightarrow> Inl err
      | None \<Rightarrow> NewStream io (peer l) (proto l))"

text \<open>
  How a run of the accept loop over the rounds given ends: the function has returned, it
  is blocked in \<open>Accept\<close> after the last round given, or it has panicked on the nil
  \<open>listener\<close> field.
\<close>

datatype loop_end = returned | blocked_in_Accept | panicked

text \<open>\<open>func (l *localListener) acceptConns()\<close>: one equation per round of the \<open>for\<close>.\<close>

fun acceptConns :: "('a env_scheme) \<Rightarrow> localListener \<Rightarrow> accept_io list \<Rightarrow> world \<Rightarrow> loop_end \<times> world" where
  "acceptConns env l [] w = (if listener l = None then panicked else blocked_in_Accept, w)"
| "acceptConns env l (io # ios) w =
     (if listener l = None then (panicked, w)
      else case Accept io of
        Inl err \<Rightarrow> (returned, w)
      | Inr local \<Rightarrow>
          (case dial l io of
             Inl err \<Rightarrow> (returned, emit (Conn_Close local) w)
           | Inr remote \<Rightarrow>
               (case NewMultiaddr env (localListener_TargetAddress env l) of
                  Inl err \<Rightarrow> (returned, emit (Conn_Close local) w)
                | Inr tgt \<Rightarrow>
                    (let stream = \<lparr>id_f = 0, Protocol = proto l,
                                     OriginAddr = RemoteMultiaddr local, TargetAddr = tgt,
                                     Local = local, Remote = remote,
                                     Registry = p2p_Streams (p2p l)\<rparr>;
                         (stream', w1) = Register_at (p2p_Streams (p2p l)) stream w;
                         w2 = startStreaming stream' w1
                     in acceptConns env l ios w2))))"

text \<open>
  \<open>func (l *localListener) Close() error\<close>. \<open>None\<close> is the panic of a call on the nil
  \<open>listener\<close> field.
\<close>

definition localListener_Close :: "('a env_scheme) \<Rightarrow> localListener \<Rightarrow> world \<Rightarrow> world option" where
  "localListener_Close env l w =
     (case listener l of
        None \<Rightarrow> None
      | Some ml \<Rightarrow>
          Some (ListenerRegistry_Deregister (getListenerKey env (LocalForward l))
                  (emit (Listener_Close_ev ml) w)))"

text \<open>
  Modelled from the spec: \<open>Close\<close> of the remote-forward listener, whose source file is
  missing. It unregisters the protocol handler and deregisters the listener.
\<close>

definition remoteListener_Close :: "listenerKey \<Rightarrow> world \<Rightarrow> world option" where
  "remoteListener_Close k w =
     Some (ListenerRegistry_Deregister k (emit (RemoveStreamHandler_ev (key_proto k)) w))"

fun Listener_Close :: "('a env_scheme) \<Rightarrow> Listener \<Rightarrow> world \<Rightarrow> world option" where
  "Listener_Close env (LocalForward l) w = localListener_Close env l w"
| "Listener_Close env (RemoteForward k) w = remoteListener_Close k w"

section \<open>The commands: forward, close, stream close\<close>

text \<open>
  The request as the commands read it: what \<open>InvocContext().GetNode()\<close> returns, the
  positional arguments, and the options (\<open>None\<close> for an option that is not given).
  Of the node: what \<open>Repo.Config()\<close> returns (of the configuration, the flag
  \<open>Experimental.Libp2pStreamMounting\<close>), \<open>OnlineMode()\<close> and the field \<open>P2P\<close>.
\<close>

record IpfsNode =
  Repo_Config :: "error + bool"
  OnlineMode :: bool
  node_P2P :: P2P

record Request =
  GetNode :: "error + IpfsNode"
  Arguments :: "string list"
  Option_all :: "bool option"
  Option_protocol :: "string option"
  Option_listen_address :: "string option"
  Option_target_address :: "string option"

text \<open>
  \<open>Option(name).Bool()\<close> and \<open>Option(name).String()\<close>: the value (Go's zero value
  when the option is not given) and whether the option was found.
\<close>

definition Option_Bool :: "bool option \<Rightarrow> bool \<times> bool" where
  "Option_Bool v = (case v of None \<Rightarrow> (False, False) | Some b \<Rightarrow> (b, True))"

definition Option_String :: "string option \<Rightarrow> string \<times> bool" where
  "Option_String v = (case v of None \<Rightarrow> ([], False) | Some x \<Rightarrow> (x, True))"

text \<open>The response: the error and the output that \<open>SetError\<close> and \<open>SetOutput\<close> store.\<close>

datatype cmd_output = out_nil | out_int int

record Response =
  res_Error :: "error option"
  res_Output :: cmd_output

definition SetError :: "error \<Rightarrow> Response \<Rightarrow> Response" where
  "SetError err res = res\<lparr>res_Error := Some err\<rparr>"

definition SetOutput :: "cmd_output \<Rightarrow> Response \<Rightarrow> Response" where
  "SetOutput v res = res\<lparr>res_Output := v\<rparr>"

definition new_Response :: Response where
  "new_Response = \<lparr>res_Error = None, res_Output = out_nil\<rparr>"

text \<open>\<open>strings.HasPrefix(s, prefix)\<close>.\<close>

definition HasPrefix :: "string \<Rightarrow> string \<Rightarrow> bool" where
  "HasPrefix s pre = prefix pre s"

text \<open>
  Further parameters of the commands: \<open>ParsePeerParam\<close> of the commands package (an
  optional address and a peer identity, or an error), \<open>strconv.ParseUint(s, 10, 64)\<close>,
  and \<open>P2P.ForwardRemote\<close>, whose source file is missing.
\<close>

record cmd_env = env +
  ParsePeerParam :: "string \<Rightarrow> error + (Multiaddr option \<times> peer_ID)"
  ParseUint :: "string \<Rightarrow> error + uint64"
  ForwardRemote :: "P2P \<Rightarrow> string \<Rightarrow> Multiaddr \<Rightarrow> world \<Rightarrow> (error + Listener) \<times> world"

text \<open>\<open>func p2pGetNode(req cmds.Request) (*core.IpfsNode, error)\<close>.\<close>

definition p2pGetNode :: "Request \<Rightarrow> error + IpfsNode" where
  "p2pGetNode req =
     (case GetNode req of
        Inl err \<Rightarrow> Inl err
      | Inr n \<Rightarrow>
          (case Repo_Config n of
             Inl err \<Rightarrow> Inl err
           | Inr mounting \<Rightarrow>
               if \<not> mounting then Inl (Error ''libp2p stream mounting not enabled'')
               else if \<not> OnlineMode n then Inl errNotOnline
               else Inr n))"

text \<open>
  \<open>func forwardRemote(ctx, p, proto, target) error\<close>. A call into the p2p package is
  logged before it is made.
\<close>

definition forwardRemote :: "cmd_env \<Rightarrow> P2P \<Rightarrow> string \<Rightarrow> string \<Rightarrow> world \<Rightarrow> error option \<times> world" where
  "forwardRemote env p proto_arg target w =
     (if HasPrefix target ''/ipfs''
      then (Some (Error ''cannot forward libp2p service connections to another libp2p service''), w)
      else case NewMultiaddr env target of
        Inl err \<Rightarrow> (Some err, w)
      | Inr addr \<Rightarrow>
          (case ForwardRemote env p proto_arg addr (emit (ForwardRemote_ev proto_arg addr) w) of
             (Inl err, w') \<Rightarrow> (Some err, w')
           | (Inr l, w') \<Rightarrow> (None, w')))"

text \<open>\<open>func forwardLocal(ctx, p, ps, proto, listen, target) error\<close>.\<close>

definition forwardLocal :: "cmd_env \<Rightarrow> P2P \<Rightarrow> string \<Rightarrow> string \<Rightarrow> string \<Rightarrow> world \<Rightarrow> error option \<times> world" where
  "forwardLocal env p proto_arg listen target w =
     (case NewMultiaddr env listen of
        Inl err \<Rightarrow> (Some err, w)
      | Inr bindAddr \<Rightarrow>
          (case ParsePeerParam env target of
             Inl err \<Rightarrow> (Some err, w)
           | Inr (addr, peer_v) \<Rightarrow>
               (let w1 = (case addr of
                            None \<Rightarrow> w
                          | Some a \<Rightarrow> emit (Peerstore_AddAddr_ev peer_v a) w)
                in case ForwardLocal env p peer_v proto_arg bindAddr
                          (emit (ForwardLocal_ev peer_v proto_arg bindAddr) w1) of
                     (Inl err, w') \<Rightarrow> (Some err, w')
                   | (Inr l, w') \<Rightarrow> (None, w'))))"

text \<open>
  \<open>p2pForwardCmd.Run\<close>. The result \<open>None\<close> is the panic of \<open>req.Arguments()[i]\<close> out
  of range; the three indexings come before any effect.
\<close>

definition p2pForwardCmd_Run :: "cmd_env \<Rightarrow> Request \<Rightarrow> Response \<Rightarrow> world \<Rightarrow> Response option \<times> world" where
  "p2pForwardCmd_Run env req res w =
     (case p2pGetNode req of
        Inl err \<Rightarrow> (Some (SetError err res), w)
      | Inr n \<Rightarrow>
          if length (Arguments req) < 3 then (None, w)
          else
            (let proto_v = ''/p2p/'' @ Arguments req ! 0;
                 listen = Arguments req ! 1;
                 target = Arguments req ! 2
             in if HasPrefix listen ''/ipfs''
                then
                  (if listen \<noteq> ''/ipfs''
                   then (Some (SetError (Error ''only '/ipfs' is allowed as libp2p listen address'') res), w)
                   else case forwardRemote env (node_P2P n) proto_v target w of
                     (Some err, w') \<Rightarrow> (Some (SetError err res), w')
                   | (None, w') \<Rightarrow> (Some (SetOutput out_nil res), w'))
                else
                  (case forwardLocal env (node_P2P n) proto_v listen target w of
                     (Some err, w') \<Rightarrow> (Some (SetError err res), w')
                   | (None, w') \<Rightarrow> (Some (SetOutput out_nil res), w'))))"

text \<open>
  The closure \<open>match\<close> of \<open>p2pCloseCmd.Run\<close>. It assigns to the variable \<open>proto\<close> that
  it captures, so it takes the variable's value and returns the new one beside its result.
\<close>

definition match_listener ::
  "cmd_env \<Rightarrow> bool \<Rightarrow> bool \<Rightarrow> bool \<Rightarrow> bool \<Rightarrow> string \<Rightarrow> string \<Rightarrow> Listener \<Rightarrow> string \<Rightarrow> bool \<times> string" where
  "match_listener env closeAll p l t listen target lst proto_var =
     (let out0 = True;
          proto1 = (if p \<or> \<not> HasPrefix proto_var ''/p2p/'' then ''/p2p/'' @ proto_var else proto_var);
          out1 = (if p then out0 \<and> proto1 = Listener_Protocol lst else out0);
          out2 = (if l then out1 \<and> listen = Listener_ListenAddress lst else out1);
          out3 = (if t then out2 \<and> target = Listener_TargetAddress env lst else out2)
      in (out3 \<or> closeAll, proto1))"

text \<open>
  The values that the variable \<open>proto\<close> of \<open>p2pCloseCmd.Run\<close> takes while the loop
  runs: the option's value with the prefix put in front of it some number of times.
\<close>

fun prefixed :: "nat \<Rightarrow> string \<Rightarrow> string" where
  "prefixed 0 s = s"
| "prefixed (Suc i) s = ''/p2p/'' @ prefixed i s"

text \<open>
  The \<open>for ... range n.P2P.Listeners.Listeners\<close> loop of \<open>p2pCloseCmd.Run\<close>. Go
  visits the keys of a map in an order of its choosing, given here as the list of keys;
  an entry that was deleted before the loop reaches it is not visited. \<open>None\<close> is a panic
  inside \<open>listener.Close()\<close>. The count \<open>closed\<close> is a Go \<open>int\<close>; it is bounded by
  the size of the map and is kept as an integer.
\<close>

fun close_loop ::
  "cmd_env \<Rightarrow> bool \<Rightarrow> bool \<Rightarrow> bool \<Rightarrow> bool \<Rightarrow> string \<Rightarrow> string \<Rightarrow>
     listenerKey list \<Rightarrow> string \<Rightarrow> int \<Rightarrow> world \<Rightarrow> (int \<times> world) option" where
  "close_loop env closeAll p l t listen target [] proto_var closed w = Some (closed, w)"
| "close_loop env closeAll p l t listen target (k # ks) proto_var closed w =
     (case Listeners (listener_registry w) k of
        None \<Rightarrow> close_loop env closeAll p l t listen target ks proto_var closed w
      | Some lst \<Rightarrow>
          (let (m, proto_new) = match_listener env closeAll p l t listen target lst proto_var
           in if \<not> m then close_loop env closeAll p l t listen target ks proto_new closed w
              else (case Listener_Close env lst w of
                      None \<Rightarrow> None
                    | Some w1 \<Rightarrow>
                        close_loop env closeAll p l t listen target ks proto_new (closed + 1) w1)))"

text \<open>\<open>p2pCloseCmd.Run\<close>, with the order in which the map is visited.\<close>

definition p2pCloseCmd_Run ::
  "cmd_env \<Rightarrow> listenerKey list \<Rightarrow> Request \<Rightarrow> Response \<Rightarrow> world \<Rightarrow> (Response \<times> world) option" where
  "p2pCloseCmd_Run env order req res w =
     (let res1 = SetOutput out_nil res
      in case p2pGetNode req of
        Inl err \<Rightarrow> Some (SetError err res1, w)
      | Inr n \<Rightarrow>
          (let closeAll = fst (Option_Bool (Option_all req));
               (proto_v, p) = Option_String (Option_protocol req);
               (listen, l) = Option_String (Option_listen_address req);
               (target, t) = Option_String (Option_target_address req)
           in if \<not> (closeAll \<or> p \<or> l \<or> t)
              then Some (SetError (Error ''no connection matching options given'') res1, w)
              else if closeAll \<and> (p \<or> l \<or> t)
              then Some (SetError (Error ''can't combine --all with other matching options'') res1, w)
              else (case close_loop env closeAll p l t listen target order proto_v 0 w of
                      None \<Rightarrow> None
                    | Some (closed, w') \<Rightarrow> Some (SetOutput (out_int closed) res1, w'))))"

text \<open>
  The \<open>for ... range n.P2P.Streams.Streams\<close> loop of \<open>p2pStreamCloseCmd.Run\<close>, over the
  registry that the node's P2P points to, in the order given.
\<close>

fun stream_close_loop :: "bool \<Rightarrow> uint64 \<Rightarrow> ref \<Rightarrow> uint64 list \<Rightarrow> world \<Rightarrow> world" where
  "stream_close_loop closeAll handlerID r [] w = w"
| "stream_close_loop closeAll handlerID r (k # ks) w =
     (case Streams (stream_registries w r) k of
        None \<Rightarrow> stream_close_loop closeAll handlerID r ks w
      | Some stream \<Rightarrow>
          if \<not> closeAll \<and> handlerID \<noteq> k then stream_close_loop closeAll handlerID r ks w
          else
            (let w' = Stream_Reset stream w
             in if \<not> closeAll then w' else stream_close_loop closeAll handlerID r ks w'))"

text \<open>\<open>p2pStreamCloseCmd.Run\<close>, with the order in which the map is visited.\<close>

definition p2pStreamCloseCmd_Run ::
  "cmd_env \<Rightarrow> uint64 list \<Rightarrow> Request \<Rightarrow> Response \<Rightarrow> world \<Rightarrow> Response \<times> world" where
  "p2pStreamCloseCmd_Run env order req res w =
     (let res1 = SetOutput out_nil res
      in case p2pGetNode req of
        Inl err \<Rightarrow> (SetError err res1, w)
      | Inr n \<Rightarrow>
          (let closeAll = fst (Option_Bool (Option_all req))
           in case (if \<not> closeAll
                    then (case Arguments req of
                            [] \<Rightarrow> Inl (Error ''no id specified'')
                          | a # rest \<Rightarrow> ParseUint env a)
                    else Inr 0) of
                Inl err \<Rightarrow> (SetError err res1, w)
              | Inr handlerID \<Rightarrow>
                  (res1, stream_close_loop closeAll handlerID (p2p_Streams (node_P2P n)) order w)))"

section \<open>Example values\<close>

text \<open>
  A stream as a caller hands it to Register, a history of three calls on a registry, and
  the registry after one registration.
\<close>

definition stream0 :: Stream where
  "stream0 = \<lparr>id_f = 0, Protocol = ''/p2p/echo'',
     OriginAddr = Multiaddr ''/ip4/127.0.0.1/tcp/5000'',
     TargetAddr = Multiaddr ''/ipfs/QmPeer'',
     Local = \<lparr>conn_fd = 1, RemoteMultiaddr = Multiaddr ''/ip4/127.0.0.1/tcp/5000''\<rparr>,
     Remote = 1, Registry = 0\<rparr>"

definition calls0 :: "registry_call list" where
  "calls0 = [Register_call stream0, Deregister_call 0, Register_call stream0]"

definition registry1 :: StreamRegistry where
  "registry1 = snd (StreamRegistry_Register stream0 fresh_StreamRegistry)"

text \<open>
  An environment for the examples. Peer identities are given in their printed form; a
  multiaddr is any text that starts with a slash; every address can be bound but port 80;
  a peer parameter is \<open>/ipfs/\<close> and the peer; \<open>ParseUint\<close> reads decimal digits up to
  \<open>2^64 - 1\<close>; ForwardRemote locks and registers a remote-forward listener.
\<close>

fun digits_value :: "string \<Rightarrow> nat \<Rightarrow> nat option" where
  "digits_value [] acc = Some acc"
| "digits_value (c # cs) acc =
     (if 48 \<le> (of_char c :: nat) \<and> (of_char c :: nat) \<le> 57
      then digits_value cs (10 * acc + (of_char c - 48))
      else None)"

definition ParseUint_decimal :: "string \<Rightarrow> error + uint64" where
  "ParseUint_decimal s =
     (if s = [] then Inl (Error ''invalid syntax'')
      else case digits_value s 0 of
        None \<Rightarrow> Inl (Error ''invalid syntax'')
      | Some n \<Rightarrow> if n < 2 ^ 64 then Inr (of_nat n) else Inl (Error ''value out of range''))"

definition p2p_env0 :: env where
  "p2p_env0 =
     \<lparr>Pretty = (\<lambda>p. p),
      NewMultiaddr = (\<lambda>s. if HasPrefix s ''/'' then Inr (Multiaddr s)
                          else Inl (Error ''invalid multiaddr'')),
      manet_Listen = (\<lambda>a. if a = Multiaddr ''/ip4/127.0.0.1/tcp/80''
                          then Inl (Error ''bind: address already in use'') else Inr 3)\<rparr>"

definition ForwardRemote0 :: "P2P \<Rightarrow> string \<Rightarrow> Multiaddr \<Rightarrow> world \<Rightarrow> (error + Listener) \<times> world" where
  "ForwardRemote0 p pr a w =
     (let lst = RemoteForward \<lparr>key_proto = pr, key_listen = ''/ipfs'', key_target = ma_String a\<rparr>
      in case ListenerRegistry_lock p2p_env0 lst w of
           (Some err, w1) \<Rightarrow> (Inl err, w1)
         | (None, w1) \<Rightarrow> (Inr lst, ListenerRegistry_Register p2p_env0 lst w1))"

definition env0 :: cmd_env where
  "env0 =
     \<lparr>Pretty = Pretty p2p_env0,
      NewMultiaddr = NewMultiaddr p2p_env0,
      manet_Listen = manet_Listen p2p_env0,
      ParsePeerParam = (\<lambda>s. if HasPrefix s ''/ipfs/'' then Inr (None, drop 6 s)
                            else Inl (Error ''invalid peer address'')),
      ParseUint = ParseUint_decimal,
      ForwardRemote = ForwardRemote0\<rparr>"

text \<open>A node that is online with stream mounting enabled, and an empty world.\<close>

definition p2p0 :: P2P where
  "p2p0 = \<lparr>identity = ''QmSelf'', p2p_Streams = 0\<rparr>"

definition node0 :: IpfsNode where
  "node0 = \<lparr>Repo_Config = Inr True, OnlineMode = True, node_P2P = p2p0\<rparr>"

definition world0 :: world where
  "world0 =
     \<lparr>stream_registries = (\<lambda>r. fresh_StreamRegistry),
      listener_registry = \<lparr>Listeners = Map.empty, reserved = None\<rparr>,
      trace = [], goroutines = []\<rparr>"

definition request0 :: "string list \<Rightarrow> Request" where
  "request0 args =
     \<lparr>GetNode = Inr node0, Arguments = args, Option_all = None, Option_protocol = None,
      Option_listen_address = None, Option_target_address = None\<rparr>"

text \<open>
  A bound local-forward listener for the protocol \<open>/p2p/echo\<close> towards the peer
  \<open>QmPeer\<close>, two accepted connections, and two rounds of its accept loop: one where
  the dial fails in \<open>Connect\<close>, one where it succeeds.
\<close>

definition listener0 :: localListener where
  "listener0 =
     \<lparr>p2p = p2p0, id_l = ''QmSelf'', proto = ''/p2p/echo'',
      laddr = Multiaddr ''/ip4/127.0.0.1/tcp/4567'', peer = ''QmPeer'', listener = Some 3\<rparr>"

definition conn1 :: Conn where
  "conn1 = \<lparr>conn_fd = 1, RemoteMultiaddr = Multiaddr ''/ip4/127.0.0.1/tcp/50001''\<rparr>"

definition conn2 :: Conn where
  "conn2 = \<lparr>conn_fd = 2, RemoteMultiaddr = Multiaddr ''/ip4/127.0.0.1/tcp/50002''\<rparr>"

definition round_dial_fails :: accept_io where
  "round_dial_fails =
     \<lparr>Accept = Inr conn1, Connect = (\<lambda>p. Some (Error ''dial backoff'')),
      NewStream = (\<lambda>p pr. Inr 7)\<rparr>"

definition round_ok :: accept_io where
  "round_ok =
     \<lparr>Accept = Inr conn2, Connect = (\<lambda>p. None), NewStream = (\<lambda>p pr. Inr 8)\<rparr>"

text \<open>The world after the successful round: one stream, with the handle 0.\<close>

definition world_echo :: world where
  "world_echo = snd (acceptConns env0 listener0 [round_ok] world0)"

definition stream_echo :: Stream where
  "stream_echo =
     \<lparr>id_f = 0, Protocol = ''/p2p/echo'', OriginAddr = Multiaddr ''/ip4/127.0.0.1/tcp/50002'',
      TargetAddr = Multiaddr ''/ipfs/QmPeer'', Local = conn2, Remote = 8, Registry = 0\<rparr>"

text \<open>
  The world after \<open>ipfs p2p forward a /ip4/127.0.0.1/tcp/4001 /ipfs/QmPeer\<close> and
  \<open>ipfs p2p forward b /ip4/127.0.0.1/tcp/4002 /ipfs/QmPeer\<close>, the keys of the two
  listeners, and the request \<open>ipfs p2p close -p b\<close>.
\<close>

definition world_a :: world where
  "world_a = snd (p2pForwardCmd_Run env0
      (request0 [''a'', ''/ip4/127.0.0.1/tcp/4001'', ''/ipfs/QmPeer'']) new_Response world0)"

definition world_ab :: world where
  "world_ab = snd (p2pForwardCmd_Run env0
      (request0 [''b'', ''/ip4/127.0.0.1/tcp/4002'', ''/ipfs/QmPeer'']) new_Response world_a)"

definition key_a :: listenerKey where
  "key_a = \<lparr>key_proto = ''/p2p/a'', key_listen = ''/ip4/127.0.0.1/tcp/4001'',
            key_target = ''/ipfs/QmPeer''\<rparr>"

definition key_b :: listenerKey where
  "key_b = \<lparr>key_proto = ''/p2p/b'', key_listen = ''/ip4/127.0.0.1/tcp/4002'',
            key_target = ''/ipfs/QmPeer''\<rparr>"

definition listener_a :: localListener where
  "listener_a =
     \<lparr>p2p = p2p0, id_l = ''QmSelf'', proto = ''/p2p/a'',
      laddr = Multiaddr ''/ip4/127.0.0.1/tcp/4001'', peer = ''QmPeer'', listener = Some 3\<rparr>"

definition listener_b :: localListener where
  "listener_b =
     \<lparr>p2p = p2p0, id_l = ''QmSelf'', proto = ''/p2p/b'',
      laddr = Multiaddr ''/ip4/127.0.0.1/tcp/4002'', peer = ''QmPeer'', listener = Some 3\<rparr>"

definition close_b :: Request where
  "close_b = (request0 [])\<lparr>Option_protocol := Some ''b''\<rparr>"

section \<open>Properties of the StreamRegistry\<close>

lemma Register_fst: "id_f (fst (StreamRegistry_Register s r)) = nextID r"
  by (simp add: StreamRegistry_Register_def Let_def)

lemma Register_nextID: "nextID (snd (StreamRegistry_Register s r)) = nextID r + 1"
  by (simp add: StreamRegistry_Register_def Let_def)

lemma Deregister_nextID: "nextID (StreamRegistry_Deregister h r) = nextID r"
  by (simp add: StreamRegistry_Deregister_def)

lemma run_calls_Register:
  "run_calls (Register_call s # cs) r =
     (nextID r # fst (run_calls cs (snd (StreamRegistry_Register s r))),
      snd (run_calls cs (snd (StreamRegistry_Register s r))))"
  by (simp add: split_beta Register_fst)

lemma count_Register_Cons:
  "count_Register (c # cs) = (if is_Register c then Suc (count_Register cs) else count_Register cs)"
  by (simp add: count_Register_def)

lemma count_Register_append:
  "count_Register (xs @ ys) = count_Register xs + count_Register ys"
  by (simp add: count_Register_def)

lemma upt_0_Suc: "[0..<Suc n] = 0 # map Suc [0..<n]"
  by (simp add: upt_conv_Cons map_Suc_upt del: upt_Suc)

text \<open>The k-th Register call of a history is given the handle \<open>nextID + k\<close>, modulo \<open>2^64\<close>.\<close>

lemma run_calls_handles:
  "fst (run_calls cs r) = map (\<lambda>i. nextID r + of_nat i) [0..<count_Register cs]"
proof (induction cs arbitrary: r)
  case Nil
  show ?case by (simp add: count_Register_def)
next
  case (Cons c cs)
  show ?case
  proof (cases c)
    case (Register_call s)
    have "fst (run_calls (c # cs) r) =
            nextID r # map (\<lambda>i. nextID r + 1 + of_nat i) [0..<count_Register cs]"
      using Cons [of "snd (StreamRegistry_Register s r)"]
      by (simp only: Register_call run_calls_Register fst_conv Register_nextID)
    also have "\<dots> = map (\<lambda>i. nextID r + of_nat i) [0..<Suc (count_Register cs)]"
      by (simp only: upt_0_Suc) (simp add: comp_def add.assoc add.commute)
    finally show ?thesis by (simp add: Register_call count_Register_Cons)
  next
    case (Deregister_call h)
    then show ?thesis
      using Cons [of "StreamRegistry_Deregister h r"]
      by (simp add: count_Register_Cons Deregister_nextID)
  qed
qed

lemma run_calls_append:
  "run_calls (xs @ ys) r =
     (fst (run_calls xs r) @ fst (run_calls ys (snd (run_calls xs r))),
      snd (run_calls ys (snd (run_calls xs r))))"
proof (induction xs arbitrary: r)
  case Nil
  show ?case by simp
next
  case (Cons c xs)
  show ?case
  proof (cases c)
    case (Register_call s)
    show ?thesis
      by (simp only: Register_call append_Cons run_calls_Register Cons fst_conv snd_conv)
  next
    case (Deregister_call h)
    show ?thesis
      by (simp add: Deregister_call Cons)
  qed
qed

lemma of_nat_inj_uint64:
  assumes "i < 2 ^ 64" "j < 2 ^ 64" "(of_nat i :: uint64) = of_nat j"
  shows "i = j"
proof -
  have "unat (of_nat j :: uint64) = i" using assms by (intro of_nat_inverse) simp_all
  moreover have "unat (of_nat j :: uint64) = j" using assms by (intro of_nat_inverse) simp_all
  ultimately show ?thesis by simp
qed

lemma handles_distinct:
  assumes "n \<le> 2 ^ 64"
  shows "distinct (map (\<lambda>i. (x::uint64) + of_nat i) [0..<n])"
proof -
  have "inj_on (\<lambda>i. x + (of_nat i :: uint64)) {0..<n}"
  proof (rule inj_onI)
    fix i j assume "i \<in> {0..<n}" "j \<in> {0..<n}" "x + (of_nat i::uint64) = x + of_nat j"
    then have "i < 2 ^ 64" "j < 2 ^ 64" "(of_nat i :: uint64) = of_nat j" using assms by auto
    then show "i = j" by (rule of_nat_inj_uint64)
  qed
  then show ?thesis by (simp add: distinct_map)
qed

lemma handles_unat_image:
  assumes "n \<le> 2 ^ 64"
  shows "unat ` set (map (\<lambda>i. (0::uint64) + of_nat i) [0..<n]) = {0..<n}"
proof -
  have "\<And>i. i < n \<Longrightarrow> unat (of_nat i :: uint64) = i"
    using assms by (intro of_nat_inverse) simp_all
  then show ?thesis by (force simp: image_iff)
qed

lemma Deregister_Deregister:
  "StreamRegistry_Deregister h (StreamRegistry_Deregister h r) = StreamRegistry_Deregister h r"
  by (simp add: StreamRegistry_Deregister_def)

lemma Deregister_absent:
  "Streams r h = None \<Longrightarrow> StreamRegistry_Deregister h r = r"
  by (simp add: StreamRegistry_Deregister_def fun_upd_idem)

text \<open>
  C7. For every registry and every handle \<open>h\<close>, deregistering \<open>h\<close> twice in a row
  gives the same registry as deregistering it once; deregistering a handle that has no
  entry leaves the registry as it is. Deregister returns no error and Go's \<open>delete\<close>
  cannot fail, so there is no failure to return.
\<close>

theorem C7_Deregister_idempotent:
  "StreamRegistry_Deregister h (StreamRegistry_Deregister h r) = StreamRegistry_Deregister h r
   \<and> (Streams r h = None \<longrightarrow> StreamRegistry_Deregister h r = r)"
  by (simp add: Deregister_Deregister Deregister_absent)

theorem C7_Deregister_idempotent_witness:
  "Streams registry1 5 = None
   \<and> StreamRegistry_Deregister 5 registry1 = registry1
   \<and> Streams registry1 0 \<noteq> None
   \<and> StreamRegistry_Deregister 0 (StreamRegistry_Deregister 0 registry1)
       = StreamRegistry_Deregister 0 registry1"
proof -
  have a: "Streams registry1 5 = None"
    by (simp add: registry1_def StreamRegistry_Register_def Let_def fresh_StreamRegistry_def)
  have b: "Streams registry1 0 \<noteq> None"
    by (simp add: registry1_def StreamRegistry_Register_def Let_def fresh_StreamRegistry_def)
  show ?thesis
    using C7_Deregister_idempotent [of 5 registry1] C7_Deregister_idempotent [of 0 registry1] a b
    by simp
qed

text \<open>
  C1. For every history of calls on a fresh registry (\<open>nextID\<close> starting at 0) with N
  Register calls, interleaved with any Deregister calls, N within the range of the
  \<open>uint64\<close> counter (at most \<open>2^64\<close>): the handles assigned are \<open>0, 1, ..., N-1\<close> in
  this order, they are pairwise distinct, as numbers they are exactly the set
  \<open>{0, ..., N-1}\<close>, and a handle that was assigned and then freed by Deregister is not
  assigned by any later Register call of the history, since each Register adds one to
  the counter and Deregister leaves it as it is.
\<close>

theorem C1_handles_unique_below_wrap:
  assumes "count_Register cs \<le> 2 ^ 64"
  shows "fst (run_calls cs fresh_StreamRegistry) = map of_nat [0..<count_Register cs]
    \<and> distinct (fst (run_calls cs fresh_StreamRegistry))
    \<and> unat ` set (fst (run_calls cs fresh_StreamRegistry)) = {0..<count_Register cs}
    \<and> (\<forall>before h after. cs = before @ Deregister_call h # after
           \<longrightarrow> h \<in> set (fst (run_calls before fresh_StreamRegistry))
           \<longrightarrow> h \<notin> set (fst (run_calls after
                 (snd (run_calls (before @ [Deregister_call h]) fresh_StreamRegistry)))))"
proof -
  have n0: "nextID fresh_StreamRegistry = 0" by (simp add: fresh_StreamRegistry_def)
  have hs: "fst (run_calls cs fresh_StreamRegistry)
              = map (\<lambda>i. (0::uint64) + of_nat i) [0..<count_Register cs]"
    using run_calls_handles [of cs fresh_StreamRegistry] by (simp only: n0)
  have d: "distinct (fst (run_calls cs fresh_StreamRegistry))"
    unfolding hs using assms by (rule handles_distinct)
  have u: "unat ` set (fst (run_calls cs fresh_StreamRegistry)) = {0..<count_Register cs}"
    unfolding hs using assms by (rule handles_unat_image)
  have f: "h \<notin> set (fst (run_calls after
                 (snd (run_calls (before @ [Deregister_call h]) fresh_StreamRegistry))))"
    if split: "cs = before @ Deregister_call h # after"
      and mem: "h \<in> set (fst (run_calls before fresh_StreamRegistry))"
    for before h after
  proof -
    have "cs = (before @ [Deregister_call h]) @ after" using split by simp
    then have "fst (run_calls cs fresh_StreamRegistry)
        = fst (run_calls (before @ [Deregister_call h]) fresh_StreamRegistry)
          @ fst (run_calls after
                  (snd (run_calls (before @ [Deregister_call h]) fresh_StreamRegistry)))"
      by (simp only: run_calls_append fst_conv)
    moreover have "fst (run_calls (before @ [Deregister_call h]) fresh_StreamRegistry)
        = fst (run_calls before fresh_StreamRegistry)"
      by (simp add: run_calls_append)
    ultimately show ?thesis using d mem by auto
  qed
  show ?thesis using hs d u f by simp
qed

theorem C1_handles_unique_below_wrap_witness:
  "count_Register calls0 \<le> 2 ^ 64
   \<and> fst (run_calls calls0 fresh_StreamRegistry) = [0, 1]
   \<and> distinct (fst (run_calls calls0 fresh_StreamRegistry))
   \<and> 0 \<in> set (fst (run_calls [Register_call stream0] fresh_StreamRegistry))
   \<and> 0 \<notin> set (fst (run_calls [Register_call stream0]
         (snd (run_calls ([Register_call stream0] @ [Deregister_call 0]) fresh_StreamRegistry))))"
proof -
  have c: "count_Register calls0 \<le> 2 ^ 64"
    by (simp add: calls0_def count_Register_def)
  have s: "calls0 = [Register_call stream0] @ Deregister_call 0 # [Register_call stream0]"
    by (simp add: calls0_def)
  have m: "0 \<in> set (fst (run_calls [Register_call stream0] fresh_StreamRegistry))"
    by (simp add: split_beta Register_fst fresh_StreamRegistry_def)
  have e: "map of_nat [0..<count_Register calls0] = [0, 1 :: uint64]"
    by (simp add: calls0_def count_Register_def upt_0_Suc)
  show ?thesis
    using C1_handles_unique_below_wrap [OF c] c s m e by metis
qed

section \<open>Properties of the stream lifecycle\<close>

lemmas example_defs = env0_def p2p_env0_def ForwardRemote0_def p2p0_def node0_def world0_def
  request0_def listener0_def conn1_def conn2_def round_dial_fails_def round_ok_def key_a_def
  key_b_def close_b_def new_Response_def fresh_StreamRegistry_def listener_a_def listener_b_def

lemmas registry_defs = ListenerRegistry_lock_def ListenerRegistry_unlock_def
  ListenerRegistry_Register_def ListenerRegistry_Deregister_def getListenerKey_def
  localListener_Protocol_def localListener_ListenAddress_def localListener_TargetAddress_def
  emit_def go_def

lemmas command_defs = p2pForwardCmd_Run_def p2pGetNode_def forwardLocal_def forwardRemote_def
  ForwardLocal_def HasPrefix_def SetError_def SetOutput_def Let_def

lemmas accept_defs = dial_def emit_def localListener_TargetAddress_def HasPrefix_def
  Register_at_def StreamRegistry_Register_def startStreaming_def go_def Let_def split_beta

text \<open>The example worlds, evaluated.\<close>

lemma world_a_eq:
  "world_a = world0\<lparr>
    listener_registry := \<lparr>Listeners = [key_a \<mapsto> LocalForward listener_a], reserved = None\<rparr>,
    trace := [ForwardLocal_ev ''QmPeer'' ''/p2p/a'' (Multiaddr ''/ip4/127.0.0.1/tcp/4001''),
              Listeners_lock_ev key_a, manet_Listen_ev (Multiaddr ''/ip4/127.0.0.1/tcp/4001''),
              Listeners_Register_ev key_a],
    goroutines := [acceptConns_of listener_a]\<rparr>"
  by (simp add: world_a_def example_defs registry_defs command_defs)

lemma world_ab_eq:
  "world_ab = world0\<lparr>
    listener_registry := \<lparr>Listeners = [key_a \<mapsto> LocalForward listener_a,
                                       key_b \<mapsto> LocalForward listener_b], reserved = None\<rparr>,
    trace := [ForwardLocal_ev ''QmPeer'' ''/p2p/a'' (Multiaddr ''/ip4/127.0.0.1/tcp/4001''),
              Listeners_lock_ev key_a, manet_Listen_ev (Multiaddr ''/ip4/127.0.0.1/tcp/4001''),
              Listeners_Register_ev key_a,
              ForwardLocal_ev ''QmPeer'' ''/p2p/b'' (Multiaddr ''/ip4/127.0.0.1/tcp/4002''),
              Listeners_lock_ev key_b, manet_Listen_ev (Multiaddr ''/ip4/127.0.0.1/tcp/4002''),
              Listeners_Register_ev key_b],
    goroutines := [acceptConns_of listener_a, acceptConns_of listener_b]\<rparr>"
  unfolding world_ab_def world_a_eq
  by (simp add: example_defs registry_defs command_defs)

text \<open>
  C4. For every stream and every world, \<open>Close\<close> closes the local connection, closes
  the overlay stream with \<open>Close\<close>, and then deregisters the stream's handle from the
  registry that its \<open>Registry\<close> field points to; \<open>Reset\<close> does the same with \<open>Reset\<close>
  on the overlay stream in place of \<open>Close\<close>. These three calls are all that either
  does, in this order, so the deregistration is the last step, and afterwards the
  registry has no entry at the handle.
\<close>

theorem C4_Close_and_Reset:
  "trace (Stream_Close s w) = trace w @ [Conn_Close (Local s), Stream_Close_ev (Remote s),
                                         Streams_Deregister_ev (Registry s) (id_f s)]
   \<and> stream_registries (Stream_Close s w) = (stream_registries w)
         (Registry s := StreamRegistry_Deregister (id_f s) (stream_registries w (Registry s)))
   \<and> last (trace (Stream_Close s w)) = Streams_Deregister_ev (Registry s) (id_f s)
   \<and> Streams (stream_registries (Stream_Close s w) (Registry s)) (id_f s) = None
   \<and> trace (Stream_Reset s w) = trace w @ [Conn_Close (Local s), Stream_Reset_ev (Remote s),
                                         Streams_Deregister_ev (Registry s) (id_f s)]
   \<and> stream_registries (Stream_Reset s w) = (stream_registries w)
         (Registry s := StreamRegistry_Deregister (id_f s) (stream_registries w (Registry s)))
   \<and> last (trace (Stream_Reset s w)) = Streams_Deregister_ev (Registry s) (id_f s)
   \<and> Streams (stream_registries (Stream_Reset s w) (Registry s)) (id_f s) = None"
  by (simp add: Stream_Close_def Stream_Reset_def Deregister_at_def emit_def Let_def
      StreamRegistry_Deregister_def)

text \<open>
  C3. For every stream, \<open>startStreaming\<close> starts two goroutines, one per direction,
  and nothing else. The one that copies from the remote end to the local end finishes with
  \<open>Reset\<close> whatever \<open>io.Copy\<close> returned. The one that copies from the local end to the
  remote end finishes with \<open>Close\<close> when \<open>io.Copy\<close> returned no error and with
  \<open>Reset\<close> when it returned one.
\<close>

theorem C3_startStreaming_terminal_actions:
  "startStreaming s w
     = w\<lparr>goroutines := goroutines w @ [copy_Remote_to_Local s, copy_Local_to_Remote s]\<rparr>
   \<and> run_copy (copy_Remote_to_Local s) (n, err) w
       = Stream_Reset s (emit (io_Copy (Local_end (Local s)) (Remote_end (Remote s))) w)
   \<and> run_copy (copy_Local_to_Remote s) (n, None) w
       = Stream_Close s (emit (io_Copy (Remote_end (Remote s)) (Local_end (Local s))) w)
   \<and> run_copy (copy_Local_to_Remote s) (n, Some e) w
       = Stream_Reset s (emit (io_Copy (Remote_end (Remote s)) (Local_end (Local s))) w)
   \<and> trace (run_copy (copy_Remote_to_Local s) (n, err) w)
       = trace w @ [io_Copy (Local_end (Local s)) (Remote_end (Remote s)), Conn_Close (Local s),
                    Stream_Reset_ev (Remote s), Streams_Deregister_ev (Registry s) (id_f s)]
   \<and> trace (run_copy (copy_Local_to_Remote s) (n, None) w)
       = trace w @ [io_Copy (Remote_end (Remote s)) (Local_end (Local s)), Conn_Close (Local s),
                    Stream_Close_ev (Remote s), Streams_Deregister_ev (Registry s) (id_f s)]
   \<and> trace (run_copy (copy_Local_to_Remote s) (n, Some e) w)
       = trace w @ [io_Copy (Remote_end (Remote s)) (Local_end (Local s)), Conn_Close (Local s),
                    Stream_Reset_ev (Remote s), Streams_Deregister_ev (Registry s) (id_f s)]"
  by (simp add: startStreaming_def go_def Stream_Close_def Stream_Reset_def Deregister_at_def
      emit_def Let_def)

section \<open>Properties of the local-forward listener\<close>

lemma getListenerKey_listener_update:
  "getListenerKey env (LocalForward (l\<lparr>listener := x\<rparr>)) = getListenerKey env (LocalForward l)"
  by (simp add: registry_defs)

lemma lock_cases:
  "ListenerRegistry_lock env lst w =
     (if Listeners (listener_registry w) (getListenerKey env lst) \<noteq> None
         \<or> reserved (listener_registry w) = Some (getListenerKey env lst)
      then (Some DuplicateListener, emit (Listeners_lock_ev (getListenerKey env lst)) w)
      else (None, (emit (Listeners_lock_ev (getListenerKey env lst)) w)
                    \<lparr>listener_registry :=
                       (listener_registry w)\<lparr>reserved := Some (getListenerKey env lst)\<rparr>\<rparr>))"
  by (simp add: ListenerRegistry_lock_def Let_def emit_def)

text \<open>
  C5. For every call of ForwardLocal, with \<open>l\<close> the listener it constructs and \<open>k\<close> its
  key: if \<open>lock\<close> fails, its error is returned, \<open>manet.Listen\<close> is not called, and the
  registry and the goroutines are as before; if \<open>lock\<close> succeeds and \<open>manet.Listen\<close>
  fails, the bind error is returned, \<open>unlock\<close> is called exactly once (after the bind,
  as the last call), \<open>Register\<close> is not called, the map of listeners is as before with no
  entry at \<open>k\<close>, and no goroutine is started; if both succeed, the bound listener is
  returned, it is registered at \<open>k\<close> and its accept loop is started. The call returns a
  listener, and no error, exactly when both steps succeed.
\<close>

theorem C5_ForwardLocal_outcomes:
  assumes l: "l = \<lparr>p2p = p, id_l = identity p, proto = pr, laddr = bindAddr, peer = pe,
                    listener = None\<rparr>"
      and k: "k = getListenerKey env (LocalForward l)"
      and r: "ForwardLocal env p pe pr bindAddr w = (result, w')"
  shows
   "(\<forall>err. fst (ListenerRegistry_lock env (LocalForward l) w) = Some err \<longrightarrow>
        result = Inl err
        \<and> trace w' = trace w @ [Listeners_lock_ev k]
        \<and> listener_registry w' = listener_registry w
        \<and> goroutines w' = goroutines w)
  \<and> (\<forall>err. fst (ListenerRegistry_lock env (LocalForward l) w) = None
           \<and> manet_Listen env bindAddr = Inl err \<longrightarrow>
        result = Inl err
        \<and> trace w' = trace w @ [Listeners_lock_ev k, manet_Listen_ev bindAddr, Listeners_unlock_ev]
        \<and> count_list (trace w') Listeners_unlock_ev = count_list (trace w) Listeners_unlock_ev + 1
        \<and> Listeners (listener_registry w') = Listeners (listener_registry w)
        \<and> Listeners (listener_registry w') k = None
        \<and> reserved (listener_registry w') = None
        \<and> goroutines w' = goroutines w)
  \<and> (\<forall>ml. fst (ListenerRegistry_lock env (LocalForward l) w) = None
           \<and> manet_Listen env bindAddr = Inr ml \<longrightarrow>
        result = Inr (l\<lparr>listener := Some ml\<rparr>)
        \<and> trace w' = trace w @ [Listeners_lock_ev k, manet_Listen_ev bindAddr,
                                  Listeners_Register_ev k]
        \<and> Listeners (listener_registry w')
            = (Listeners (listener_registry w))(k \<mapsto> LocalForward (l\<lparr>listener := Some ml\<rparr>))
        \<and> reserved (listener_registry w') = None
        \<and> goroutines w' = goroutines w @ [acceptConns_of (l\<lparr>listener := Some ml\<rparr>)])
  \<and> ((\<exists>bound. result = Inr bound) \<longleftrightarrow>
        fst (ListenerRegistry_lock env (LocalForward l) w) = None
        \<and> (\<exists>ml. manet_Listen env bindAddr = Inr ml))"
proof -
  have r': "(result, w') = ForwardLocal env p pe pr bindAddr w" using r by simp
  show ?thesis
  proof (cases "Listeners (listener_registry w) k \<noteq> None \<or> reserved (listener_registry w) = Some k")
    case True
    then have lk: "ListenerRegistry_lock env (LocalForward l) w
                    = (Some DuplicateListener, emit (Listeners_lock_ev k) w)"
      using k by (simp add: lock_cases)
    have "(result, w') = (Inl DuplicateListener, emit (Listeners_lock_ev k) w)"
      unfolding r' ForwardLocal_def l [symmetric] Let_def lk by simp
    then show ?thesis using lk by (auto simp: emit_def)
  next
    case False
    then have lk: "ListenerRegistry_lock env (LocalForward l) w
                    = (None, (emit (Listeners_lock_ev k) w)
                         \<lparr>listener_registry := (listener_registry w)\<lparr>reserved := Some k\<rparr>\<rparr>)"
      using k by (simp add: lock_cases)
    show ?thesis
    proof (cases "manet_Listen env bindAddr")
      case (Inl err)
      have "(result, w') = (Inl err, ListenerRegistry_unlock (emit (manet_Listen_ev bindAddr)
                 ((emit (Listeners_lock_ev k) w)
                         \<lparr>listener_registry := (listener_registry w)\<lparr>reserved := Some k\<rparr>\<rparr>)))"
        unfolding r' ForwardLocal_def l [symmetric] Let_def lk by (simp add: Inl)
      then show ?thesis using lk Inl False
        by (auto simp: emit_def ListenerRegistry_unlock_def)
    next
      case (Inr ml)
      have "(result, w') = (Inr (l\<lparr>listener := Some ml\<rparr>),
               go (acceptConns_of (l\<lparr>listener := Some ml\<rparr>))
                 (ListenerRegistry_Register env (LocalForward (l\<lparr>listener := Some ml\<rparr>))
                   (emit (manet_Listen_ev bindAddr)
                     ((emit (Listeners_lock_ev k) w)
                         \<lparr>listener_registry := (listener_registry w)\<lparr>reserved := Some k\<rparr>\<rparr>))))"
        unfolding r' ForwardLocal_def l [symmetric] Let_def lk by (simp add: Inr)
      then show ?thesis using lk Inr
        by (auto simp: emit_def go_def ListenerRegistry_Register_def Let_def
              getListenerKey_listener_update k [symmetric])
    qed
  qed
qed

theorem C5_ForwardLocal_outcomes_witness:
  "fst (ListenerRegistry_lock env0 (LocalForward (listener_a\<lparr>listener := None\<rparr>)) world_a)
     = Some DuplicateListener
   \<and> fst (ForwardLocal env0 p2p0 ''QmPeer'' ''/p2p/a'' (Multiaddr ''/ip4/127.0.0.1/tcp/4001'') world_a)
     = Inl DuplicateListener
   \<and> listener_registry (snd (ForwardLocal env0 p2p0 ''QmPeer'' ''/p2p/a''
         (Multiaddr ''/ip4/127.0.0.1/tcp/4001'') world_a)) = listener_registry world_a
   \<and> fst (ListenerRegistry_lock env0 (LocalForward (listener_a\<lparr>listener := None\<rparr>)) world0) = None
   \<and> manet_Listen env0 (Multiaddr ''/ip4/127.0.0.1/tcp/4001'') = Inr 3
   \<and> fst (ForwardLocal env0 p2p0 ''QmPeer'' ''/p2p/a'' (Multiaddr ''/ip4/127.0.0.1/tcp/4001'') world0)
     = Inr listener_a
   \<and> goroutines (snd (ForwardLocal env0 p2p0 ''QmPeer'' ''/p2p/a''
         (Multiaddr ''/ip4/127.0.0.1/tcp/4001'') world0)) = [acceptConns_of listener_a]
   \<and> Listeners (listener_registry (snd (ForwardLocal env0 p2p0 ''QmPeer'' ''/p2p/a''
         (Multiaddr ''/ip4/127.0.0.1/tcp/4001'') world0))) key_a = Some (LocalForward listener_a)
   \<and> fst (ListenerRegistry_lock env0 (LocalForward
         \<lparr>p2p = p2p0, id_l = identity p2p0, proto = ''/p2p/a'',
          laddr = Multiaddr ''/ip4/127.0.0.1/tcp/80'', peer = ''QmPeer'', listener = None\<rparr>) world0) = None
   \<and> manet_Listen env0 (Multiaddr ''/ip4/127.0.0.1/tcp/80'') = Inl (Error ''bind: address already in use'')
   \<and> fst (ForwardLocal env0 p2p0 ''QmPeer'' ''/p2p/a'' (Multiaddr ''/ip4/127.0.0.1/tcp/80'') world0)
     = Inl (Error ''bind: address already in use'')
   \<and> count_list (trace (snd (ForwardLocal env0 p2p0 ''QmPeer'' ''/p2p/a''
         (Multiaddr ''/ip4/127.0.0.1/tcp/80'') world0))) Listeners_unlock_ev = 1
   \<and> Listeners (listener_registry (snd (ForwardLocal env0 p2p0 ''QmPeer'' ''/p2p/a''
         (Multiaddr ''/ip4/127.0.0.1/tcp/80'') world0))) = Map.empty"
proof -
  define la where "la = listener_a\<lparr>listener := None\<rparr>"
  define l80 where "l80 = \<lparr>p2p = p2p0, id_l = identity p2p0, proto = ''/p2p/a'',
          laddr = Multiaddr ''/ip4/127.0.0.1/tcp/80'', peer = ''QmPeer'', listener = None\<rparr>"
  have la: "la = \<lparr>p2p = p2p0, id_l = identity p2p0, proto = ''/p2p/a'',
                   laddr = Multiaddr ''/ip4/127.0.0.1/tcp/4001'', peer = ''QmPeer'',
                   listener = None\<rparr>"
    by (simp add: la_def listener_a_def p2p0_def)
  have ka: "getListenerKey env0 (LocalForward la) = key_a"
    by (simp add: la registry_defs key_a_def env0_def p2p_env0_def)
  have dup: "fst (ListenerRegistry_lock env0 (LocalForward la) world_a) = Some DuplicateListener"
    by (simp add: lock_cases ka world_a_eq)
  have free: "fst (ListenerRegistry_lock env0 (LocalForward la) world0) = None"
    by (simp add: lock_cases ka world0_def)
  have free80: "fst (ListenerRegistry_lock env0 (LocalForward l80) world0) = None"
    by (simp add: lock_cases world0_def)
  have ok: "manet_Listen env0 (Multiaddr ''/ip4/127.0.0.1/tcp/4001'') = Inr 3"
    by (simp add: env0_def p2p_env0_def)
  have busy: "manet_Listen env0 (Multiaddr ''/ip4/127.0.0.1/tcp/80'')
                = Inl (Error ''bind: address already in use'')"
    by (simp add: env0_def p2p_env0_def)
  have bound: "la\<lparr>listener := Some 3\<rparr> = listener_a"
    by (simp add: la_def listener_a_def)
  have w0: "trace world0 = []" "goroutines world0 = []"
    "Listeners (listener_registry world0) = Map.empty"
    by (simp_all add: world0_def)
  note t1 = C5_ForwardLocal_outcomes [OF la refl prod.collapse [symmetric], of env0 world_a]
  note t2 = C5_ForwardLocal_outcomes [OF la refl prod.collapse [symmetric], of env0 world0]
  note t3 = C5_ForwardLocal_outcomes [OF l80_def refl prod.collapse [symmetric], of env0 world0]
  show ?thesis
    unfolding la_def [symmetric] l80_def [symmetric]
    using t1 t2 t3 dup free free80 ok busy
    by (simp add: bound ka w0)
qed

text \<open>
  When the dial fails, \<open>acceptConns\<close> closes the connection it has just accepted and
  then returns: the loop ends, whatever rounds would follow.
\<close>

lemma dial_failure_returns:
  assumes "listener l = Some ml" "Accept io = Inr local" "dial l io = Inl err"
  shows "acceptConns env l (io # ios) w = (returned, emit (Conn_Close local) w)"
  using assms by simp

text \<open>
  C2, at the failing input: the listener for \<open>/p2p/echo\<close> accepts a first connection
  whose dial fails and has a second connection waiting whose dial would succeed. The
  function returns after closing the first connection; the second is not accepted, no
  stream is registered and no relay is started. With the second round alone, the loop
  registers a stream and goes on to block in \<open>Accept\<close>.
\<close>

theorem C2_dial_failure_ends_accept_loop:
  "acceptConns env0 listener0 [round_dial_fails, round_ok] world0
     = (returned, world0\<lparr>trace := [Conn_Close conn1]\<rparr>)
   \<and> fst (acceptConns env0 listener0 [round_ok] world0) = blocked_in_Accept
   \<and> trace (snd (acceptConns env0 listener0 [round_ok] world0)) = [Streams_Register_ev 0 0]"
  by (simp add: example_defs accept_defs)

lemma startStreaming_registries:
  "stream_registries (startStreaming s w) = stream_registries w"
  by (simp add: startStreaming_def go_def)

lemma Register_at_registries:
  "Streams (stream_registries (snd (Register_at r s w)) r') h =
     (if r' = r \<and> h = nextID (stream_registries w r) then Some (fst (Register_at r s w))
      else Streams (stream_registries w r') h)"
  by (simp add: Register_at_def StreamRegistry_Register_def Let_def emit_def)

lemma Register_at_TargetAddr: "TargetAddr (fst (Register_at r s w)) = TargetAddr s"
  by (simp add: Register_at_def StreamRegistry_Register_def Let_def)

text \<open>
  Every entry of a stream registry that a run of the accept loop has written holds a
  stream whose target address is the multiaddr parsed from \<open>/ipfs/\<close> and the printed
  peer identity.
\<close>

lemma acceptConns_TargetAddr:
  "Streams (stream_registries (snd (acceptConns env l ios w)) r) h = Some s \<Longrightarrow>
   Streams (stream_registries w r) h \<noteq> Some s \<Longrightarrow>
   NewMultiaddr env (''/ipfs/'' @ Pretty env (peer l)) = Inr (TargetAddr s)"
proof (induction ios arbitrary: w)
  case Nil
  then show ?case by (simp split: if_splits)
next
  case (Cons io ios)
  show ?case
  proof (cases "listener l = None")
    case True
    with Cons.prems show ?thesis by simp
  next
    case False
    then obtain ml where bound: "listener l = Some ml" by auto
    show ?thesis
    proof (cases "Accept io")
      case (Inl err)
      with Cons.prems bound show ?thesis by simp
    next
      case (Inr local)
      show ?thesis
      proof (cases "dial l io")
        case (Inl err)
        with Cons.prems bound Inr show ?thesis by (simp add: emit_def)
      next
        case remote: (Inr remote)
        show ?thesis
        proof (cases "NewMultiaddr env (localListener_TargetAddress env l)")
          case (Inl err)
          with Cons.prems bound Inr remote show ?thesis by (simp add: emit_def)
        next
          case tgt: (Inr tgt)
          define stream where "stream = \<lparr>id_f = 0, Protocol = proto l,
                                     OriginAddr = RemoteMultiaddr local, TargetAddr = tgt,
                                     Local = local, Remote = remote,
                                     Registry = p2p_Streams (p2p l)\<rparr>"
          define w2 where "w2 = startStreaming (fst (Register_at (p2p_Streams (p2p l)) stream w))
                                  (snd (Register_at (p2p_Streams (p2p l)) stream w))"
          have step: "acceptConns env l (io # ios) w = acceptConns env l ios w2"
            using bound Inr remote tgt by (simp add: split_beta Let_def stream_def w2_def)
          have t: "NewMultiaddr env (''/ipfs/'' @ Pretty env (peer l)) = Inr tgt"
            using tgt by (simp add: localListener_TargetAddress_def)
          have in2: "Streams (stream_registries (snd (acceptConns env l ios w2)) r) h = Some s"
            using Cons.prems(1) step by simp
          show ?thesis
          proof (cases "Streams (stream_registries w2 r) h = Some s")
            case False
            from Cons.IH [OF in2 False] show ?thesis .
          next
            case True
            then have "s = fst (Register_at (p2p_Streams (p2p l)) stream w)"
              using Cons.prems(2)
              by (simp add: w2_def startStreaming_registries Register_at_registries split: if_splits)
            then have "TargetAddr s = tgt"
              by (simp add: Register_at_TargetAddr stream_def)
            with t show ?thesis by simp
          qed
        qed
      qed
    qed
  qed
qed

text \<open>
  C6, as amended. For every local-forward listener with target peer P, the target address
  string it reports is \<open>/ipfs/\<close> followed by the printed form of P (\<open>P.Pretty()\<close>), and
  every stream that its accept loop registers has as \<open>TargetAddr\<close> the multiaddr that
  \<open>ma.NewMultiaddr\<close> parses from this string.
\<close>

theorem C6_TargetAddress_is_ipfs_path:
  "localListener_TargetAddress env l = ''/ipfs/'' @ Pretty env (peer l)
   \<and> (\<forall>r h s. Streams (stream_registries (snd (acceptConns env l ios w)) r) h = Some s
          \<longrightarrow> Streams (stream_registries w r) h \<noteq> Some s
          \<longrightarrow> NewMultiaddr env (localListener_TargetAddress env l) = Inr (TargetAddr s))"
  using acceptConns_TargetAddr [of env l ios w]
  by (simp add: localListener_TargetAddress_def)

theorem C6_TargetAddress_is_ipfs_path_witness:
  "Streams (stream_registries (snd (acceptConns env0 listener0 [round_ok] world0)) 0) 0
     = Some \<lparr>id_f = 0, Protocol = ''/p2p/echo'',
             OriginAddr = Multiaddr ''/ip4/127.0.0.1/tcp/50002'',
             TargetAddr = Multiaddr ''/ipfs/QmPeer'', Local = conn2, Remote = 8, Registry = 0\<rparr>
   \<and> Streams (stream_registries world0 0) 0 = None
   \<and> NewMultiaddr env0 (localListener_TargetAddress env0 listener0)
       = Inr (Multiaddr ''/ipfs/QmPeer'')
   \<and> localListener_TargetAddress env0 listener0 = ''/ipfs/QmPeer''"
proof -
  have a: "Streams (stream_registries (snd (acceptConns env0 listener0 [round_ok] world0)) 0) 0
     = Some \<lparr>id_f = 0, Protocol = ''/p2p/echo'',
             OriginAddr = Multiaddr ''/ip4/127.0.0.1/tcp/50002'',
             TargetAddr = Multiaddr ''/ipfs/QmPeer'', Local = conn2, Remote = 8, Registry = 0\<rparr>"
    by (simp add: example_defs accept_defs)
  have b: "Streams (stream_registries world0 0) 0 = None"
    by (simp add: world0_def fresh_StreamRegistry_def)
  have c: "localListener_TargetAddress env0 listener0 = ''/ipfs/QmPeer''"
    by (simp add: localListener_TargetAddress_def example_defs)
  show ?thesis
    using C6_TargetAddress_is_ipfs_path [of env0 listener0 "[round_ok]" world0] a b c
    by auto
qed

text \<open>
  The claim as stated fails: for the listener towards the peer \<open>QmPeer\<close> the reported
  string is \<open>/ipfs/QmPeer\<close>, not \<open>peer:\<close> followed by the peer, raw or printed.
\<close>

theorem C6_counterexample:
  "localListener_TargetAddress env0 listener0 = ''/ipfs/QmPeer''
   \<and> localListener_TargetAddress env0 listener0 \<noteq> ''peer:'' @ peer listener0
   \<and> localListener_TargetAddress env0 listener0 \<noteq> ''peer:'' @ Pretty env0 (peer listener0)"
  by (simp add: localListener_TargetAddress_def example_defs)

section \<open>Properties of the commands\<close>

text \<open>
  C8. For every invocation of the forward command with a protocol, a listen address and a
  target address: (1) if the request is a remote forward (the listen address is \<open>/ipfs\<close>)
  and the target address begins with \<open>/ipfs\<close>, and (2) if the listen address begins with
  \<open>/ipfs\<close> and is not \<open>/ipfs\<close> itself, the command sets an error and leaves the world
  as it is: no call into the p2p package is made. With the node available, the errors
  are the two messages of the source.
\<close>

theorem C8_forward_rejects_overlay_addresses:
  assumes args: "Arguments req = s # listen # target # rest"
  shows "(listen = ''/ipfs'' \<and> HasPrefix target ''/ipfs'' \<longrightarrow>
           (\<exists>err. p2pForwardCmd_Run env req res w = (Some (SetError err res), w)))
       \<and> (HasPrefix listen ''/ipfs'' \<and> listen \<noteq> ''/ipfs'' \<longrightarrow>
           (\<exists>err. p2pForwardCmd_Run env req res w = (Some (SetError err res), w)))
       \<and> (\<forall>n. p2pGetNode req = Inr n \<and> listen = ''/ipfs'' \<and> HasPrefix target ''/ipfs'' \<longrightarrow>
           p2pForwardCmd_Run env req res w =
             (Some (SetError (Error
                ''cannot forward libp2p service connections to another libp2p service'') res), w))
       \<and> (\<forall>n. p2pGetNode req = Inr n \<and> HasPrefix listen ''/ipfs'' \<and> listen \<noteq> ''/ipfs'' \<longrightarrow>
           p2pForwardCmd_Run env req res w =
             (Some (SetError (Error ''only '/ipfs' is allowed as libp2p listen address'') res), w))"
proof (cases "p2pGetNode req")
  case (Inl err)
  then show ?thesis by (auto simp: p2pForwardCmd_Run_def)
next
  case (Inr n)
  have remote: "HasPrefix target ''/ipfs'' \<Longrightarrow>
      forwardRemote env p pr target w =
        (Some (Error ''cannot forward libp2p service connections to another libp2p service''), w)"
    for p pr
    by (simp add: forwardRemote_def)
  have ipfs: "HasPrefix ''/ipfs'' ''/ipfs''" by (simp add: HasPrefix_def)
  show ?thesis
    using Inr args by (auto simp: p2pForwardCmd_Run_def Let_def remote ipfs)
qed

theorem C8_forward_rejects_overlay_addresses_witness:
  "p2pForwardCmd_Run env0 (request0 [''echo'', ''/ipfs'', ''/ipfs/QmOther'']) new_Response world0
     = (Some (SetError (Error
          ''cannot forward libp2p service connections to another libp2p service'') new_Response),
        world0)
   \<and> p2pForwardCmd_Run env0 (request0 [''echo'', ''/ipfs/x'', ''/ip4/127.0.0.1/tcp/1234''])
         new_Response world0
     = (Some (SetError (Error ''only '/ipfs' is allowed as libp2p listen address'') new_Response),
        world0)"
proof -
  have a: "Arguments (request0 [''echo'', ''/ipfs'', ''/ipfs/QmOther''])
             = ''echo'' # ''/ipfs'' # ''/ipfs/QmOther'' # []"
    and b: "Arguments (request0 [''echo'', ''/ipfs/x'', ''/ip4/127.0.0.1/tcp/1234''])
             = ''echo'' # ''/ipfs/x'' # ''/ip4/127.0.0.1/tcp/1234'' # []"
    by (simp_all add: request0_def)
  have n: "p2pGetNode (request0 args) = Inr node0" for args
    by (simp add: p2pGetNode_def request0_def node0_def)
  have h: "HasPrefix ''/ipfs/QmOther'' ''/ipfs''" "HasPrefix ''/ipfs/x'' ''/ipfs''"
    "''/ipfs/x'' \<noteq> ''/ipfs''"
    by (simp_all add: HasPrefix_def)
  show ?thesis
    using C8_forward_rejects_overlay_addresses [OF a, of env0 new_Response world0]
      C8_forward_rejects_overlay_addresses [OF b, of env0 new_Response world0] n h
    by simp
qed

text \<open>
  Each call of \<open>match\<close> leaves in \<open>proto\<close> the value it found or that value with the
  prefix once more in front. A loop over listeners none of which matches, and a loop for
  a handle that has no entry, change nothing.
\<close>

lemma match_proto_prefixed:
  "snd (match_listener env closeAll p l t listen target lst (prefixed i pr)) = prefixed (Suc i) pr
   \<or> snd (match_listener env closeAll p l t listen target lst (prefixed i pr)) = prefixed i pr"
  by (simp add: match_listener_def Let_def)

lemma close_loop_no_match:
  assumes "\<And>k lst i. Listeners (listener_registry w) k = Some lst \<Longrightarrow>
              \<not> fst (match_listener env closeAll p l t listen target lst (prefixed i pr))"
  shows "close_loop env closeAll p l t listen target ks (prefixed i pr) closed w = Some (closed, w)"
proof (induction ks arbitrary: i)
  case Nil
  show ?case by simp
next
  case (Cons k ks)
  show ?case
  proof (cases "Listeners (listener_registry w) k")
    case None
    then show ?thesis using Cons [of i] by simp
  next
    case (Some lst)
    have nm: "\<not> fst (match_listener env closeAll p l t listen target lst (prefixed i pr))"
      using assms Some by blast
    from match_proto_prefixed [of env closeAll p l t listen target lst i pr]
    show ?thesis
    proof
      assume "snd (match_listener env closeAll p l t listen target lst (prefixed i pr))
                = prefixed (Suc i) pr"
      then show ?thesis using Some nm Cons [of "Suc i"] by (simp add: split_beta)
    next
      assume "snd (match_listener env closeAll p l t listen target lst (prefixed i pr))
                = prefixed i pr"
      then show ?thesis using Some nm Cons [of i] by (simp add: split_beta)
    qed
  qed
qed

lemma stream_close_loop_absent:
  assumes "Streams (stream_registries w r) h = None"
  shows "stream_close_loop False h r ks w = w"
proof (induction ks)
  case Nil
  show ?case by simp
next
  case (Cons k ks)
  then show ?case using assms by (cases "k = h") (simp_all split: option.split)
qed

text \<open>
  C9, as amended. With the node available and \<open>--all\<close> not set: when a matching option
  is given and no registered listener satisfies the command's \<open>match\<close> (for the protocol
  option with the prefix \<open>/p2p/\<close> in front of it any number of times, as the loop puts
  it there once more at every listener it visits), the close command sets no error,
  reports the count 0 and changes nothing; when the stream identifier parses to a handle
  that has no entry in the StreamRegistry, the stream close command sets no error, leaves
  the output nil and changes nothing. This holds for every order in which the maps are
  visited.
\<close>

theorem C9_close_of_missing_sets_no_error:
  assumes node: "p2pGetNode req = Inr n"
      and notall: "fst (Option_Bool (Option_all req)) = False"
  shows "((Option_protocol req \<noteq> None \<or> Option_listen_address req \<noteq> None
            \<or> Option_target_address req \<noteq> None)
          \<and> (\<forall>k lst i. Listeners (listener_registry w) k = Some lst \<longrightarrow>
                \<not> fst (match_listener env False
                         (snd (Option_String (Option_protocol req)))
                         (snd (Option_String (Option_listen_address req)))
                         (snd (Option_String (Option_target_address req)))
                         (fst (Option_String (Option_listen_address req)))
                         (fst (Option_String (Option_target_address req)))
                         lst (prefixed i (fst (Option_String (Option_protocol req))))))
          \<longrightarrow> p2pCloseCmd_Run env order req res w
                = Some (res\<lparr>res_Output := out_int 0\<rparr>, w))
     \<and> (\<forall>a rest h. Arguments req = a # rest \<and> ParseUint env a = Inr h
            \<and> Streams (stream_registries w (p2p_Streams (node_P2P n))) h = None
          \<longrightarrow> p2pStreamCloseCmd_Run env ids req res w = (res\<lparr>res_Output := out_nil\<rparr>, w))"
proof (intro conjI impI allI)
  assume h: "(Option_protocol req \<noteq> None \<or> Option_listen_address req \<noteq> None
            \<or> Option_target_address req \<noteq> None)
          \<and> (\<forall>k lst i. Listeners (listener_registry w) k = Some lst \<longrightarrow>
                \<not> fst (match_listener env False
                         (snd (Option_String (Option_protocol req)))
                         (snd (Option_String (Option_listen_address req)))
                         (snd (Option_String (Option_target_address req)))
                         (fst (Option_String (Option_listen_address req)))
                         (fst (Option_String (Option_target_address req)))
                         lst (prefixed i (fst (Option_String (Option_protocol req))))))"
  then have given: "snd (Option_String (Option_protocol req))
                  \<or> snd (Option_String (Option_listen_address req))
                  \<or> snd (Option_String (Option_target_address req))"
    by (auto simp: Option_String_def split: option.splits)
  have "close_loop env False
          (snd (Option_String (Option_protocol req)))
          (snd (Option_String (Option_listen_address req)))
          (snd (Option_String (Option_target_address req)))
          (fst (Option_String (Option_listen_address req)))
          (fst (Option_String (Option_target_address req)))
          order (prefixed 0 (fst (Option_String (Option_protocol req)))) 0 w = Some (0, w)"
    using h by (intro close_loop_no_match) blast
  then show "p2pCloseCmd_Run env order req res w = Some (res\<lparr>res_Output := out_int 0\<rparr>, w)"
    using node notall given
    by (auto simp: p2pCloseCmd_Run_def Let_def split_beta SetOutput_def)
next
  fix a rest h
  assume "Arguments req = a # rest \<and> ParseUint env a = Inr h
            \<and> Streams (stream_registries w (p2p_Streams (node_P2P n))) h = None"
  then show "p2pStreamCloseCmd_Run env ids req res w = (res\<lparr>res_Output := out_nil\<rparr>, w)"
    using node notall
    by (simp add: p2pStreamCloseCmd_Run_def Let_def SetOutput_def stream_close_loop_absent)
qed

lemma prefixed_b_not_a: "prefixed i ''b'' \<noteq> ''a''"
  by (cases i) simp_all

lemma world_echo_eq:
  "world_echo = world0\<lparr>
     stream_registries := (\<lambda>r. fresh_StreamRegistry)
       (0 := \<lparr>Streams = [0 \<mapsto> stream_echo], nextID = 1\<rparr>),
     trace := [Streams_Register_ev 0 0],
     goroutines := [copy_Remote_to_Local stream_echo, copy_Local_to_Remote stream_echo]\<rparr>"
  by (simp add: world_echo_def stream_echo_def example_defs accept_defs)

theorem C9_close_of_missing_sets_no_error_witness:
  "p2pCloseCmd_Run env0 [key_a] close_b new_Response world_a
     = Some (\<lparr>res_Error = None, res_Output = out_int 0\<rparr>, world_a)
   \<and> Listeners (listener_registry world_a) key_a = Some (LocalForward listener_a)
   \<and> p2pStreamCloseCmd_Run env0 [0] (request0 [''7'']) new_Response world_echo
     = (\<lparr>res_Error = None, res_Output = out_nil\<rparr>, world_echo)
   \<and> Streams (stream_registries world_echo 0) 0 = Some stream_echo
   \<and> Streams (stream_registries world_echo 0) 7 = None"
proof -
  have n: "p2pGetNode close_b = Inr node0" "p2pGetNode (request0 [''7'']) = Inr node0"
    by (simp_all add: p2pGetNode_def close_b_def request0_def node0_def)
  have na: "fst (Option_Bool (Option_all close_b)) = False"
    "fst (Option_Bool (Option_all (request0 [''7'']))) = False"
    by (simp_all add: Option_Bool_def close_b_def request0_def)
  have given: "Option_protocol close_b \<noteq> None"
    by (simp add: close_b_def)
  have la: "Listeners (listener_registry world_a) key_a = Some (LocalForward listener_a)"
    by (simp add: world_a_eq)
  have nomatch: "\<forall>k lst i. Listeners (listener_registry world_a) k = Some lst \<longrightarrow>
                \<not> fst (match_listener env0 False
                         (snd (Option_String (Option_protocol close_b)))
                         (snd (Option_String (Option_listen_address close_b)))
                         (snd (Option_String (Option_target_address close_b)))
                         (fst (Option_String (Option_listen_address close_b)))
                         (fst (Option_String (Option_target_address close_b)))
                         lst (prefixed i (fst (Option_String (Option_protocol close_b)))))"
    by (simp add: world_a_eq match_listener_def Option_String_def close_b_def request0_def
        localListener_Protocol_def listener_a_def prefixed_b_not_a)
  have args: "Arguments (request0 [''7'']) = ''7'' # []"
    by (simp add: request0_def)
  have parse: "ParseUint env0 ''7'' = Inr 7"
    by (simp add: env0_def ParseUint_decimal_def)
  have s0: "Streams (stream_registries world_echo 0) 0 = Some stream_echo"
    and s7: "Streams (stream_registries world_echo (p2p_Streams (node_P2P node0))) 7 = None"
    by (simp_all add: world_echo_eq node0_def p2p0_def fresh_StreamRegistry_def)
  have r: "new_Response\<lparr>res_Output := out_int 0\<rparr> = \<lparr>res_Error = None, res_Output = out_int 0\<rparr>"
    "new_Response\<lparr>res_Output := out_nil\<rparr> = \<lparr>res_Error = None, res_Output = out_nil\<rparr>"
    by (simp_all add: new_Response_def)
  show ?thesis
    using C9_close_of_missing_sets_no_error [OF n(1) na(1),
          where w = world_a and env = env0 and order = "[key_a]" and res = new_Response]
      C9_close_of_missing_sets_no_error [OF n(2) na(2),
          where w = world_echo and env = env0 and ids = "[0]" and res = new_Response]
      given nomatch args parse s0 s7 la r
    by (simp add: node0_def p2p0_def)
qed

text \<open>
  The claim as stated fails: \<open>ipfs p2p close -p b\<close> with only the listener for protocol
  \<open>a\<close> registered, and \<open>ipfs p2p stream close 7\<close> with only the stream 0 registered,
  both end with no error set.
\<close>

theorem C9_counterexample:
  "map_option (res_Error \<circ> fst) (p2pCloseCmd_Run env0 [key_a] close_b new_Response world_a)
     = Some None
   \<and> res_Error (fst (p2pStreamCloseCmd_Run env0 [0] (request0 [''7'']) new_Response world_echo))
     = None"
proof -
  have a: "p2pCloseCmd_Run env0 [key_a] close_b new_Response world_a
     = Some (\<lparr>res_Error = None, res_Output = out_int 0\<rparr>, world_a)"
    unfolding world_a_eq
    by (simp add: p2pCloseCmd_Run_def match_listener_def Option_Bool_def Option_String_def
        example_defs registry_defs command_defs)
  have b: "p2pStreamCloseCmd_Run env0 [0] (request0 [''7'']) new_Response world_echo
     = (\<lparr>res_Error = None, res_Output = out_nil\<rparr>, world_echo)"
    unfolding world_echo_eq
    by (simp add: p2pStreamCloseCmd_Run_def Option_Bool_def ParseUint_decimal_def
        example_defs command_defs)
  show ?thesis by (simp add: a b)
qed

text \<open>
  The forward command passes \<open>/p2p/\<close> followed by its protocol argument on to
  \<open>forwardLocal\<close> and \<open>forwardRemote\<close>, which hand it to ForwardLocal and ForwardRemote.
\<close>

lemma forward_passes_prefixed_protocol:
  assumes "p2pGetNode req = Inr n" "Arguments req = s # listen # target # rest"
  shows "p2pForwardCmd_Run env req res w =
     (if HasPrefix listen ''/ipfs''
      then (if listen \<noteq> ''/ipfs''
            then (Some (SetError (Error ''only '/ipfs' is allowed as libp2p listen address'') res), w)
            else case forwardRemote env (node_P2P n) (''/p2p/'' @ s) target w of
                   (Some err, w1) \<Rightarrow> (Some (SetError err res), w1)
                 | (None, w1) \<Rightarrow> (Some (SetOutput out_nil res), w1))
      else case forwardLocal env (node_P2P n) (''/p2p/'' @ s) listen target w of
             (Some err, w1) \<Rightarrow> (Some (SetError err res), w1)
           | (None, w1) \<Rightarrow> (Some (SetOutput out_nil res), w1))"
  using assms by (simp add: p2pForwardCmd_Run_def Let_def)

text \<open>
  C10, at the failing input: the listeners for the protocols \<open>a\<close> and \<open>b\<close> were opened
  by the forward command and are registered under \<open>/p2p/a\<close> and \<open>/p2p/b\<close>. When
  \<open>ipfs p2p close -p b\<close> visits the listener for \<open>a\<close> first, it compares the listener
  for \<open>b\<close> with \<open>/p2p//p2p/b\<close>: it closes nothing, reports the count 0 and the
  listener stays registered. When it visits the listener for \<open>b\<close> first, it closes it.
\<close>

theorem C10_close_misses_listener_visited_second:
  "Listeners (listener_registry world_ab) key_b = Some (LocalForward listener_b)
   \<and> Listener_Protocol (LocalForward listener_b) = ''/p2p/'' @ ''b''
   \<and> p2pCloseCmd_Run env0 [key_a, key_b] close_b new_Response world_ab
       = Some (\<lparr>res_Error = None, res_Output = out_int 0\<rparr>, world_ab)
   \<and> map_option fst (p2pCloseCmd_Run env0 [key_b, key_a] close_b new_Response world_ab)
       = Some \<lparr>res_Error = None, res_Output = out_int 1\<rparr>
   \<and> snd (match_listener env0 False True False False [] [] (LocalForward listener_a) ''b'')
       = ''/p2p/b''
   \<and> match_listener env0 False True False False [] [] (LocalForward listener_b) ''/p2p/b''
       = (False, ''/p2p//p2p/b'')"
proof -
  have a: "p2pCloseCmd_Run env0 [key_a, key_b] close_b new_Response world_ab
       = Some (\<lparr>res_Error = None, res_Output = out_int 0\<rparr>, world_ab)"
    unfolding world_ab_eq
    by (simp add: p2pCloseCmd_Run_def match_listener_def Option_Bool_def Option_String_def
        example_defs registry_defs command_defs)
  have b: "map_option fst (p2pCloseCmd_Run env0 [key_b, key_a] close_b new_Response world_ab)
       = Some \<lparr>res_Error = None, res_Output = out_int 1\<rparr>"
    unfolding world_ab_eq
    by (simp add: p2pCloseCmd_Run_def match_listener_def Option_Bool_def Option_String_def
        localListener_Close_def example_defs registry_defs command_defs)
  have c: "Listeners (listener_registry world_ab) key_b = Some (LocalForward listener_b)"
    by (simp add: world_ab_eq)
  have d: "Listener_Protocol (LocalForward listener_b) = ''/p2p/'' @ ''b''"
    by (simp add: localListener_Protocol_def listener_b_def)
  have e: "snd (match_listener env0 False True False False [] [] (LocalForward listener_a) ''b'')
       = ''/p2p/b''"
    "match_listener env0 False True False False [] [] (LocalForward listener_b) ''/p2p/b''
       = (False, ''/p2p//p2p/b'')"
    by (simp_all add: match_listener_def localListener_Protocol_def listener_a_def
        listener_b_def Let_def HasPrefix_def)
  show ?thesis using a b c d e by simp
qed

end
